theory Spec2Isabelle
  imports Complex_Main
begin

section \<open>Python values, exceptions and containers\<close>

text \<open>
  The program is a Python 2 script, \<^verbatim>\<open>apc_csv_processing.py\<close>. Every way a call can end
  without a value is an outcome of the model: the exceptions the script can raise, the
  \<^verbatim>\<open>sys.exit()\<close> it calls itself, and, for \<^verbatim>\<open>check_overwrite\<close>, falling off the end of the
  function body (Python then returns \<^verbatim>\<open>None\<close>). What the script writes to the terminal
  is not part of the model, and writing it is taken to succeed; of a \<^verbatim>\<open>print\<close> statement
  only the list lookup among its arguments, which can raise, is kept.
\<close>

datatype py_error =
  EOFError | IndexError | KeyError | TypeError | ValueError | OverflowError | SystemExit
  | NoneReturned

definition bindE :: "py_error + 'a \<Rightarrow> ('a \<Rightarrow> py_error + 'b) \<Rightarrow> py_error + 'b" where
  "bindE m f = (case m of Inl e \<Rightarrow> Inl e | Inr x \<Rightarrow> f x)"

text \<open>\<^verbatim>\<open>xs[i]\<close> on a list: a negative index counts from the end, out of range raises.\<close>

definition py_getitem :: "'a list \<Rightarrow> int \<Rightarrow> py_error + 'a" where
  "py_getitem xs i =
     (if 0 \<le> i \<and> i < int (length xs) then Inr (xs ! nat i)
      else if i < 0 \<and> - int (length xs) \<le> i then Inr (xs ! nat (int (length xs) + i))
      else Inl IndexError)"

text \<open>
  \<^verbatim>\<open>OrderedDict\<close>: an association list in insertion order with unique keys. Reading a
  missing key raises \<^verbatim>\<open>KeyError\<close>; storing under an existing key keeps its position,
  under a new key appends.
\<close>

fun od_get :: "('k \<times> 'v) list \<Rightarrow> 'k \<Rightarrow> py_error + 'v" where
  "od_get [] k = Inl KeyError"
| "od_get ((k', v) # kvs) k = (if k' = k then Inr v else od_get kvs k)"

fun od_set :: "('k \<times> 'v) list \<Rightarrow> 'k \<Rightarrow> 'v \<Rightarrow> ('k \<times> 'v) list" where
  "od_set [] k v = [(k, v)]"
| "od_set ((k', v') # kvs) k v = (if k' = k then (k, v) # kvs else (k', v') # od_set kvs k v)"

definition od_keys :: "('k \<times> 'v) list \<Rightarrow> 'k list" where
  "od_keys kvs = map fst kvs"

definition od_values :: "('k \<times> 'v) list \<Rightarrow> 'v list" where
  "od_values kvs = map snd kvs"

text \<open>
  Strings are \<^typ>\<open>string\<close>, whose characters are the code points 0 to 255. \<^verbatim>\<open>s.strip()\<close>
  removes leading and trailing whitespace. The cells come from \<^verbatim>\<open>UnicodeReader\<close>, so the
  strings are \<^verbatim>\<open>unicode\<close> objects, and among the code points up to 255 Python 2 counts
  these twelve as whitespace: tab to carriage return, the four separators 0x1C to 0x1F,
  the space, NEXT LINE (0x85) and NO-BREAK SPACE (0xA0).
\<close>

definition py_isspace :: "char \<Rightarrow> bool" where
  "py_isspace c = (c \<in> set [CHR 0x09, CHR 0x0A, CHR 0x0B, CHR 0x0C, CHR 0x0D,
                             CHR 0x1C, CHR 0x1D, CHR 0x1E, CHR 0x1F, CHR 0x20,
                             CHR 0x85, CHR 0xA0])"

definition strip :: "string \<Rightarrow> string" where
  "strip s = rev (dropWhile py_isspace (rev (dropWhile py_isspace s)))"

text \<open>\<^verbatim>\<open>str(n)\<close> of an integer: its decimal digits, with a minus sign when negative.\<close>

definition digit_char :: "nat \<Rightarrow> char" where
  "digit_char d = ''0123456789'' ! d"

fun str_nat :: "nat \<Rightarrow> string" where
  "str_nat n = (if n < 10 then [digit_char n] else str_nat (n div 10) @ [digit_char (n mod 10)])"

declare str_nat.simps [simp del]

definition str_int :: "int \<Rightarrow> string" where
  "str_int i = (if i < 0 then CHR ''-'' # str_nat (nat (- i)) else str_nat (nat i))"

section \<open>The class \<^verbatim>\<open>CSVColumn\<close>\<close>

datatype requirement = MANDATORY | OPTIONAL | NONE

text \<open>The class constants \<^verbatim>\<open>OW_ALWAYS = 0\<close>, \<^verbatim>\<open>OW_ASK = 1\<close>, \<^verbatim>\<open>OW_NEVER = 2\<close>.\<close>

datatype overwrite_policy = OW_ALWAYS | OW_ASK | OW_NEVER

record CSVColumn =
  column_type :: string
  requirement :: requirement
  index :: "int option"
  column_name :: string
  overwrite :: overwrite_policy
  overwrite_whitelist :: "string \<rightharpoonup> string"
  overwrite_blacklist :: "string \<rightharpoonup> string"

text \<open>\<^verbatim>\<open>__init__\<close>; the script never passes \<^verbatim>\<open>column_name\<close> or \<^verbatim>\<open>overwrite\<close>, so they take
  their defaults \<^verbatim>\<open>""\<close> and \<^verbatim>\<open>OW_ASK\<close> in \<open>new_column\<close>.\<close>

definition CSVColumn_init ::
  "string \<Rightarrow> requirement \<Rightarrow> int option \<Rightarrow> string \<Rightarrow> overwrite_policy \<Rightarrow> CSVColumn" where
  "CSVColumn_init ty rq ix nm ow =
     \<lparr>column_type = ty, requirement = rq, index = ix, column_name = nm, overwrite = ow,
      overwrite_whitelist = Map.empty, overwrite_blacklist = Map.empty\<rparr>"

definition new_column :: "string \<Rightarrow> requirement \<Rightarrow> int option \<Rightarrow> CSVColumn" where
  "new_column ty rq ix = CSVColumn_init ty rq ix [] OW_ASK"

subsection \<open>\<^verbatim>\<open>check_overwrite\<close>\<close>

text \<open>
  The console is the list of lines still unread on standard input. \<^verbatim>\<open>raw_input\<close> takes the
  first one and raises \<^verbatim>\<open>EOFError\<close> when there is none. \<open>read_choice\<close> is the first
  \<^verbatim>\<open>raw_input\<close> together with the \<^verbatim>\<open>while ret not in [...]\<close> loop that repeats it.
\<close>

definition valid_choices :: "string list" where
  "valid_choices = [''1'', ''2'', ''3'', ''4'', ''5'', ''6'']"

fun read_choice :: "string list \<Rightarrow> py_error + (string \<times> string list)" where
  "read_choice [] = Inl EOFError"
| "read_choice (ret # stdin) =
     (if ret \<in> set valid_choices then Inr (ret, stdin) else read_choice stdin)"

text \<open>
  The result is the returned value, the column as the call leaves it, and the console
  lines left. The last branch is the end of the function body, reached when none of the
  six \<^verbatim>\<open>if ret == ...\<close> tests holds.
\<close>

definition check_overwrite ::
  "CSVColumn \<Rightarrow> string \<Rightarrow> string \<Rightarrow> string list
     \<Rightarrow> py_error + (string \<times> CSVColumn \<times> string list)" where
  "check_overwrite self old_value new_value stdin =
     (if old_value = new_value then Inr (old_value, self, stdin)
      else if old_value = ''NA'' then Inr (new_value, self, stdin)
      else if strip old_value = [] then Inr (new_value, self, stdin)
      else if overwrite self = OW_ALWAYS then Inr (new_value, self, stdin)
      else if overwrite self = OW_NEVER then Inr (old_value, self, stdin)
      else if overwrite_blacklist self old_value \<noteq> None
              \<and> overwrite_blacklist self old_value = Some new_value
        then Inr (old_value, self, stdin)
      else if overwrite_whitelist self old_value \<noteq> None then Inr (new_value, self, stdin)
      else
        (case read_choice stdin of
           Inl e \<Rightarrow> Inl e
         | Inr (ret, stdin') \<Rightarrow>
             if ret = ''1'' then Inr (new_value, self, stdin')
             else if ret = ''2'' then
               Inr (new_value,
                    self\<lparr>overwrite_whitelist := (overwrite_whitelist self)(old_value \<mapsto> new_value)\<rparr>,
                    stdin')
             else if ret = ''3'' then Inr (new_value, self\<lparr>overwrite := OW_ALWAYS\<rparr>, stdin')
             else if ret = ''4'' then Inr (old_value, self, stdin')
             else if ret = ''5'' then
               Inr (old_value,
                    self\<lparr>overwrite_blacklist := (overwrite_blacklist self)(old_value \<mapsto> new_value)\<rparr>,
                    stdin')
             else if ret = ''6'' then Inr (old_value, self\<lparr>overwrite := OW_NEVER\<rparr>, stdin')
             else Inl NoneReturned))"

text \<open>
  A run of calls on one column, as \<^verbatim>\<open>main\<close> makes them when it merges metadata row after row:
  each call sees the column state and the console the previous one left.
\<close>

fun check_overwrite_calls ::
  "CSVColumn \<Rightarrow> (string \<times> string) list \<Rightarrow> string list \<Rightarrow> py_error + (CSVColumn \<times> string list)" where
  "check_overwrite_calls self [] stdin = Inr (self, stdin)"
| "check_overwrite_calls self ((old_value, new_value) # calls) stdin =
     (case check_overwrite self old_value new_value stdin of
        Inl e \<Rightarrow> Inl e
      | Inr (_, self', stdin') \<Rightarrow> check_overwrite_calls self' calls stdin')"

section \<open>The collaborators of \<^verbatim>\<open>main\<close>\<close>

text \<open>
  A Python \<^verbatim>\<open>float\<close> is modelled by the number it denotes: the script only compares
  floats with integers, asks \<^verbatim>\<open>is_integer()\<close> and converts with \<^verbatim>\<open>int()\<close>, all of which
  depend on the denoted value alone.
\<close>

datatype py_float = Finite rat | PosInf | NegInf | NaN



fun is_integer :: "py_float \<Rightarrow> bool" where
  "is_integer (Finite q) = (of_int \<lfloor>q\<rfloor> = q)"
| "is_integer PosInf = False"
| "is_integer NegInf = False"
| "is_integer NaN = False"

text \<open>\<^verbatim>\<open>int(x)\<close> truncates towards zero; \<^verbatim>\<open>int(nan)\<close> raises \<^verbatim>\<open>ValueError\<close> and
  \<^verbatim>\<open>int(inf)\<close> raises \<^verbatim>\<open>OverflowError\<close>.\<close>

fun int_of_float :: "py_float \<Rightarrow> py_error + int" where
  "int_of_float (Finite q) = Inr (if 0 \<le> q then \<lfloor>q\<rfloor> else \<lceil>q\<rceil>)"
| "int_of_float PosInf = Inl OverflowError"
| "int_of_float NegInf = Inl OverflowError"
| "int_of_float NaN = Inl ValueError"

text \<open>What a metadata source answers: \<^verbatim>\<open>{"success": False, "error_msg": ...}\<close> or
  \<^verbatim>\<open>{"success": True, "data": {...}}\<close>, the data in the order \<^verbatim>\<open>iteritems()\<close> yields it, a
  value being a string or \<^verbatim>\<open>None\<close>.\<close>

datatype lookup_result = Failure string | Success "(string \<times> string option) list"

text \<open>What the DOAJ lookup answers: no data received (with an error message), or data
  received, with \<^verbatim>\<open>in_doaj\<close> and the journal title.\<close>

datatype doaj_result = NotReceived string | Received bool string

text \<open>
  The functions \<^verbatim>\<open>main\<close> calls in the standard library and in the module
  \<^verbatim>\<open>openapc_toolkit\<close> (imported as \<^verbatim>\<open>oat\<close>), whose code is not part of the script, are
  parameters of the model. \<open>locale_atof\<close> and \<open>int_of_str\<close> give \<open>None\<close> where Python
  raises \<^verbatim>\<open>ValueError\<close>; \<open>float_str\<close> is \<^verbatim>\<open>str\<close> on a float; \<open>today_year\<close> is
  \<^verbatim>\<open>datetime.date.today().year\<close>.
\<close>

record env =
  locale_atof :: "string \<Rightarrow> py_float option"
  float_str :: "py_float \<Rightarrow> string"
  int_of_str :: "string \<Rightarrow> int option"
  today_year :: int
  DOI_RE_match :: "string \<Rightarrow> bool"
  get_metadata_from_crossref :: "string \<Rightarrow> lookup_result"
  get_metadata_from_pubmed :: "string \<Rightarrow> lookup_result"
  lookup_journal_in_doaj :: "string \<Rightarrow> bool \<Rightarrow> doaj_result"
  get_unified_journal_title :: "string \<Rightarrow> string"
  get_unified_publisher_name :: "string \<Rightarrow> string"

text \<open>The command line arguments \<^verbatim>\<open>main\<close> reads after the file analysis.\<close>

record args =
  institution_column :: "int option"
  period_column :: "int option"
  doi_column :: "int option"
  euro_column :: "int option"
  is_hybrid_column :: "int option"
  publisher_column :: "int option"
  journal_full_title_column :: "int option"
  issn_column :: "int option"
  url_column :: "int option"
  bypass_cert_verification :: bool

section \<open>\<^verbatim>\<open>main\<close>: the column map\<close>

definition column_map_init :: "args \<Rightarrow> (string \<times> CSVColumn) list" where
  "column_map_init a =
     [(''institution'', new_column ''institution'' MANDATORY (institution_column a)),
      (''period'', new_column ''period'' MANDATORY (period_column a)),
      (''euro'', new_column ''euro'' MANDATORY (euro_column a)),
      (''doi'', new_column ''doi'' MANDATORY (doi_column a)),
      (''is_hybrid'', new_column ''is_hybrid'' MANDATORY (is_hybrid_column a)),
      (''publisher'', new_column ''publisher'' OPTIONAL (publisher_column a)),
      (''journal_full_title'',
         new_column ''journal_full_title'' OPTIONAL (journal_full_title_column a)),
      (''issn'', new_column ''issn'' OPTIONAL (issn_column a)),
      (''issn_print'', new_column ''issn_print'' NONE None),
      (''issn_electronic'', new_column ''issn_electronic'' NONE None),
      (''license_ref'', new_column ''license_ref'' NONE None),
      (''indexed_in_crossref'', new_column ''indexed_in_crossref'' NONE None),
      (''pmid'', new_column ''pmid'' NONE None),
      (''pmcid'', new_column ''pmcid'' NONE None),
      (''ut'', new_column ''ut'' NONE None),
      (''url'', new_column ''url'' OPTIONAL (url_column a)),
      (''doaj'', new_column ''doaj'' NONE None)]"

section \<open>\<^verbatim>\<open>main\<close>: the heuristical analysis\<close>













section \<open>\<^verbatim>\<open>main\<close>: the metadata aggregation\<close>

text \<open>\<^verbatim>\<open>"Line {}: {}".format(row_num, msg)\<close>, the form of every entry of
  \<^verbatim>\<open>error_messages\<close>.\<close>

definition line_msg :: "nat \<Rightarrow> string \<Rightarrow> string" where
  "line_msg n msg = ''Line '' @ str_nat n @ '': '' @ msg"

definition syntax_error_msg :: "nat \<Rightarrow> nat \<Rightarrow> nat \<Rightarrow> string" where
  "syntax_error_msg n len num_columns =
     ''Syntax: the number of values in line '' @ str_nat n @ '' ('' @ str_nat len
       @ '') differs from the number of columns ('' @ str_nat num_columns
       @ ''). Line left unchanged, please correct the error in the result file and re-run.''"

definition crossref_error_msg :: "string \<Rightarrow> string \<Rightarrow> string" where
  "crossref_error_msg doi msg =
     ''Crossref: Error while trying to resolve DOI '' @ doi @ '': '' @ msg"

definition pubmed_error_msg :: "string \<Rightarrow> string \<Rightarrow> string" where
  "pubmed_error_msg doi msg =
     ''Pubmed: Error while trying to resolve DOI '' @ doi @ '': '' @ msg"

definition doaj_error_msg :: "string \<Rightarrow> string \<Rightarrow> string" where
  "doaj_error_msg issn msg = ''DOAJ: Error while trying to look up ISSN '' @ issn @ '': '' @ msg"

subsection \<open>Copying the identified columns\<close>

text \<open>The \<^verbatim>\<open>try\<close> block for a monetary value: \<^verbatim>\<open>ValueError\<close> is caught and answered with
  \<^verbatim>\<open>sys.exit()\<close>, any other exception leaves the block.\<close>

definition euro_cell :: "env \<Rightarrow> string \<Rightarrow> py_error + string" where
  "euro_cell e euro_value =
     (case locale_atof e euro_value of
        None \<Rightarrow> Inl SystemExit
      | Some euro \<Rightarrow>
          if is_integer euro then
            (case int_of_float euro of
               Inl err \<Rightarrow> if err = ValueError then Inl SystemExit else Inl err
             | Inr n \<Rightarrow> Inr (str_int n))
          else Inr (float_str e euro))"

text \<open>The value one column contributes to \<^verbatim>\<open>current_row\<close>.\<close>

definition copy_cell :: "env \<Rightarrow> string list \<Rightarrow> CSVColumn \<Rightarrow> py_error + string" where
  "copy_cell e row csv_column =
     (case index csv_column of
        None \<Rightarrow> Inr ''NA''
      | Some i \<Rightarrow>
          bindE (py_getitem row i) (\<lambda>cell.
            if length cell > 0 then
              (if column_type csv_column = ''euro'' then euro_cell e cell else Inr cell)
            else Inr ''NA''))"

fun copy_columns ::
  "env \<Rightarrow> string list \<Rightarrow> CSVColumn list \<Rightarrow> (string \<times> string) list
     \<Rightarrow> py_error + (string \<times> string) list" where
  "copy_columns e row [] current_row = Inr current_row"
| "copy_columns e row (csv_column # cols) current_row =
     bindE (copy_cell e row csv_column)
       (\<lambda>v. copy_columns e row cols (od_set current_row (column_type csv_column) v))"

subsection \<open>Merging a metadata record\<close>

text \<open>The new value Crossref data gives for a key: journal titles and publisher names
  are unified.\<close>

definition crossref_new_value :: "env \<Rightarrow> string \<Rightarrow> string option \<Rightarrow> string" where
  "crossref_new_value e key val =
     (case val of
        None \<Rightarrow> ''NA''
      | Some v \<Rightarrow>
          if key = ''journal_full_title'' then get_unified_journal_title e v
          else if key = ''publisher'' then get_unified_publisher_name e v
          else v)"

definition pubmed_new_value :: "string \<Rightarrow> string option \<Rightarrow> string" where
  "pubmed_new_value key val = (case val of None \<Rightarrow> ''NA'' | Some v \<Rightarrow> v)"

text \<open>\<^verbatim>\<open>for key, value in data.iteritems()\<close>, the same loop for Crossref and Pubmed but for
  how the new value is made (\<open>nv\<close>). It carries the column map, the current row and the
  console.\<close>

fun merge_data ::
  "(string \<Rightarrow> string option \<Rightarrow> string) \<Rightarrow> (string \<times> string option) list
     \<Rightarrow> (string \<times> CSVColumn) list \<times> (string \<times> string) list \<times> string list
     \<Rightarrow> py_error + ((string \<times> CSVColumn) list \<times> (string \<times> string) list \<times> string list)" where
  "merge_data nv [] s = Inr s"
| "merge_data nv ((key, val) # data) (cmap, current_row, inp) =
     bindE (od_get current_row key) (\<lambda>old_value.
     bindE (od_get cmap key) (\<lambda>col.
     bindE (check_overwrite col old_value (nv key val) inp) (\<lambda>(res, col', inp').
       merge_data nv data (od_set cmap key col', od_set current_row key res, inp'))))"

subsection \<open>The DOAJ lookup\<close>

text \<open>The list \<^verbatim>\<open>issns\<close>: electronic ISSN, ISSN, print ISSN, each unless it is NA.\<close>

definition issn_candidates :: "(string \<times> string) list \<Rightarrow> py_error + string list" where
  "issn_candidates current_row =
     bindE (od_get current_row ''issn_electronic'') (\<lambda>ie.
     bindE (od_get current_row ''issn'') (\<lambda>i.
     bindE (od_get current_row ''issn_print'') (\<lambda>ip.
       Inr ((if ie \<noteq> ''NA'' then [ie] else []) @ (if i \<noteq> ''NA'' then [i] else [])
            @ (if ip \<noteq> ''NA'' then [ip] else [])))))"

text \<open>\<^verbatim>\<open>for issn in issns\<close>, on the current row and the error messages. The only
  \<^verbatim>\<open>break\<close> is in the branch where the journal is in DOAJ.\<close>

fun doaj_loop ::
  "env \<Rightarrow> bool \<Rightarrow> nat \<Rightarrow> string list \<Rightarrow> (string \<times> string) list \<times> string list
     \<Rightarrow> (string \<times> string) list \<times> string list" where
  "doaj_loop e bypass n [] s = s"
| "doaj_loop e bypass n (issn # issns) (current_row, errs) =
     (case lookup_journal_in_doaj e issn bypass of
        Received in_doaj title \<Rightarrow>
          if in_doaj then (od_set current_row ''doaj'' ''TRUE'', errs)
          else doaj_loop e bypass n issns (od_set current_row ''doaj'' ''FALSE'', errs)
      | NotReceived msg \<Rightarrow>
          doaj_loop e bypass n issns
            (current_row, errs @ [line_msg n (doaj_error_msg issn msg)]))"

subsection \<open>The loop over the rows\<close>

text \<open>The variables of \<^verbatim>\<open>main\<close> that the loop changes, and the console.\<close>

record main_state =
  column_map :: "(string \<times> CSVColumn) list"
  enriched_content :: "string list list"
  error_messages :: "string list"
  header_processed :: bool
  row_num :: nat
  console :: "string list"

text \<open>The loop body from \<^verbatim>\<open>doi = row[column_map["doi"].index]\<close> on, for a row of the
  expected length. \<open>n\<close> is the row number.\<close>

definition enrich_row :: "env \<Rightarrow> args \<Rightarrow> main_state \<Rightarrow> string list \<Rightarrow> py_error + main_state" where
  "enrich_row e a st row =
     bindE (od_get (column_map st) ''doi'') (\<lambda>doi_col.
     bindE (case index doi_col of None \<Rightarrow> Inl TypeError | Some i \<Rightarrow> py_getitem row i) (\<lambda>doi.
     bindE (copy_columns e row (od_values (column_map st)) []) (\<lambda>row0.
     bindE (case get_metadata_from_crossref e doi of
              Success data \<Rightarrow>
                bindE (merge_data (crossref_new_value e) data
                         (column_map st, od_set row0 ''indexed_in_crossref'' ''TRUE'', console st))
                  (\<lambda>(cmap, r, inp). Inr (cmap, r, inp, error_messages st))
            | Failure msg \<Rightarrow>
                Inr (column_map st, od_set row0 ''indexed_in_crossref'' ''FALSE'', console st,
                     error_messages st @ [line_msg (row_num st) (crossref_error_msg doi msg)]))
       (\<lambda>(cmap1, row1, inp1, errs1).
     bindE (case get_metadata_from_pubmed e doi of
              Success data \<Rightarrow>
                bindE (merge_data pubmed_new_value data (cmap1, row1, inp1))
                  (\<lambda>(cmap, r, inp). Inr (cmap, r, inp, errs1))
            | Failure msg \<Rightarrow>
                Inr (cmap1, row1, inp1,
                     errs1 @ [line_msg (row_num st) (pubmed_error_msg doi msg)]))
       (\<lambda>(cmap2, row2, inp2, errs2).
     bindE (od_get row2 ''doaj'') (\<lambda>doaj.
     bindE (if doaj \<noteq> ''TRUE''
            then bindE (issn_candidates row2) (\<lambda>issns.
                   Inr (doaj_loop e (bypass_cert_verification a) (row_num st) issns (row2, errs2)))
            else Inr (row2, errs2))
       (\<lambda>(row3, errs3).
     Inr (st\<lparr>column_map := cmap2, enriched_content := enriched_content st @ [od_values row3],
             error_messages := errs3, console := inp2\<rparr>))))))))"

text \<open>One round of \<^verbatim>\<open>for row in reader\<close>.\<close>

definition process_row ::
  "env \<Rightarrow> args \<Rightarrow> bool \<Rightarrow> nat \<Rightarrow> main_state \<Rightarrow> string list \<Rightarrow> py_error + main_state" where
  "process_row e a has_header num_columns st0 row =
     (let st = st0\<lparr>row_num := row_num st0 + 1\<rparr> in
      if row = [] then Inr st
      else
        let st1 = (if \<not> header_processed st
                   then st\<lparr>header_processed := True,
                           enriched_content := enriched_content st @ [od_keys (column_map st)]\<rparr>
                   else st)
        in if \<not> header_processed st \<and> has_header then Inr st1
           else if length row \<noteq> num_columns then
             Inr (st1\<lparr>error_messages := error_messages st1
                         @ [line_msg (row_num st1)
                              (syntax_error_msg (row_num st1) (length row) num_columns)],
                      enriched_content := enriched_content st1 @ [row]\<rparr>)
           else enrich_row e a st1 row)"

fun process_rows ::
  "env \<Rightarrow> args \<Rightarrow> bool \<Rightarrow> nat \<Rightarrow> main_state \<Rightarrow> string list list \<Rightarrow> py_error + main_state" where
  "process_rows e a has_header num_columns st [] = Inr st"
| "process_rows e a has_header num_columns st (row # rows) =
     bindE (process_row e a has_header num_columns st row)
       (\<lambda>st'. process_rows e a has_header num_columns st' rows)"

text \<open>The state in which the loop starts.\<close>

definition main_state_init :: "(string \<times> CSVColumn) list \<Rightarrow> string list \<Rightarrow> main_state" where
  "main_state_init cmap inp =
     \<lparr>column_map = cmap, enriched_content = [], error_messages = [], header_processed = False,
      row_num = 0, console = inp\<rparr>"

section \<open>Auxiliary notions for the proofs\<close>

text \<open>The conditions under which \<^verbatim>\<open>check_overwrite\<close> gets as far as asking on the console.\<close>

definition prompt_reached :: "CSVColumn \<Rightarrow> string \<Rightarrow> string \<Rightarrow> bool" where
  "prompt_reached c ov nv =
     (ov \<noteq> nv \<and> ov \<noteq> ''NA'' \<and> strip ov \<noteq> [] \<and> overwrite c = OW_ASK
      \<and> overwrite_blacklist c ov \<noteq> Some nv \<and> overwrite_whitelist c ov = None)"

text \<open>What holds of the two dictionaries of a column in every state a run can reach: a
  remembered old value is neither NA nor blank, and no pair is in both dictionaries.\<close>

definition memo_ok :: "CSVColumn \<Rightarrow> bool" where
  "memo_ok c =
     ((\<forall>ov nv. overwrite_whitelist c ov = Some nv \<longrightarrow>
          ov \<noteq> ''NA'' \<and> strip ov \<noteq> [] \<and> overwrite_blacklist c ov \<noteq> Some nv)
      \<and> (\<forall>ov nv. overwrite_blacklist c ov = Some nv \<longrightarrow> ov \<noteq> ''NA'' \<and> strip ov \<noteq> []))"

text \<open>A column for the examples: the publisher column of a file that has it at index 5.\<close>

definition publisher_col :: CSVColumn where
  "publisher_col = new_column ''publisher'' OPTIONAL (Some 5)"




text \<open>The characters of a decimal numeral.\<close>

definition decimal_digits :: "char set" where
  "decimal_digits = set ''0123456789''"

text \<open>
  What is taken for granted of \<^verbatim>\<open>str\<close> on a float, which the script does not define.
  Python 2 formats the float with \<^verbatim>\<open>%.12g\<close>, whatever the locale, and appends \<^verbatim>\<open>.0\<close> when the
  text has neither a dot nor an exponent. So the text is \<^verbatim>\<open>inf\<close>, \<^verbatim>\<open>-inf\<close>, \<^verbatim>\<open>nan\<close>, or a
  numeral: an optional minus sign, digits, and then a dot followed by digits, an exponent
  (\<^verbatim>\<open>e\<close>, a sign, digits), or both. The decimal mark of such a text is a dot.
\<close>

definition is_digit :: "char \<Rightarrow> bool" where
  "is_digit ch = (ch \<in> decimal_digits)"

definition exponent_shaped :: "string \<Rightarrow> bool" where
  "exponent_shaped s =
     (case s of
        ch # sg # ds \<Rightarrow>
          ch = CHR ''e'' \<and> (sg = CHR ''+'' \<or> sg = CHR ''-'') \<and> ds \<noteq> [] \<and> list_all is_digit ds
      | _ \<Rightarrow> False)"

definition unsigned_float_shaped :: "string \<Rightarrow> bool" where
  "unsigned_float_shaped s =
     (takeWhile is_digit s \<noteq> [] \<and>
      (case dropWhile is_digit s of
         [] \<Rightarrow> False
       | ch # r \<Rightarrow>
           if ch = CHR ''.'' then
             takeWhile is_digit r \<noteq> []
             \<and> (dropWhile is_digit r = [] \<or> exponent_shaped (dropWhile is_digit r))
           else exponent_shaped (ch # r)))"

definition float_shaped :: "string \<Rightarrow> bool" where
  "float_shaped s =
     (s = ''inf'' \<or> s = ''-inf'' \<or> s = ''nan'' \<or>
      (case s of
         [] \<Rightarrow> False
       | ch # r \<Rightarrow> if ch = CHR ''-'' then unsigned_float_shaped r else unsigned_float_shaped s))"

definition float_str_ok :: "env \<Rightarrow> bool" where
  "float_str_ok e = (\<forall>x. float_shaped (float_str e x))"

text \<open>
  An environment for the examples. \<open>example_atof\<close> and \<open>example_int\<close> are what
  \<^verbatim>\<open>locale.atof\<close> (under the C locale) and \<^verbatim>\<open>int\<close> give on the cells the examples use,
  and \<^verbatim>\<open>ValueError\<close> on the other cells of the examples; \<open>float_str\<close> is \<^verbatim>\<open>str\<close> on the
  one float that is printed. Crossref and Pubmed answer with a failure; DOAJ knows two
  ISSNs and fails on every other one.
\<close>

definition example_atof :: "string \<Rightarrow> py_float option" where
  "example_atof s =
     (if s = ''1500'' \<or> s = ''1500.00'' then Some (Finite 1500)
      else if s = ''2021'' then Some (Finite 2021)
      else if s = ''1234.5'' then Some (Finite (2469 / 2))
      else None)"

definition example_int :: "string \<Rightarrow> int option" where
  "example_int s =
     (if s = ''1500'' then Some 1500 else if s = ''2021'' then Some 2021 else None)"

definition example_doaj :: "string \<Rightarrow> bool \<Rightarrow> doaj_result" where
  "example_doaj issn bypass =
     (if issn = ''1111-1111'' then Received False []
      else if issn = ''2222-2222'' then Received True ''Journal of Examples''
      else NotReceived ''timed out'')"

definition example_env :: env where
  "example_env =
     \<lparr>locale_atof = example_atof,
      float_str = (\<lambda>x. if x = Finite (2469 / 2) then ''1234.5'' else ''nan''),
      int_of_str = example_int,
      today_year = 2021,
      DOI_RE_match = (\<lambda>s. s = ''10.1/abc''),
      get_metadata_from_crossref = (\<lambda>doi. Failure ''HTTPError: 404''),
      get_metadata_from_pubmed = (\<lambda>doi. Failure ''HTTPError: 404''),
      lookup_journal_in_doaj = example_doaj,
      get_unified_journal_title = (\<lambda>s. s),
      get_unified_publisher_name = (\<lambda>s. s)\<rparr>"

text \<open>
  The same environment under a German locale, where the comma is the decimal mark:
  \<open>example_atof_de\<close> is what \<^verbatim>\<open>locale.atof\<close> gives there on the cells of the examples.
\<close>

definition example_atof_de :: "string \<Rightarrow> py_float option" where
  "example_atof_de s =
     (if s = ''1500,00'' then Some (Finite 1500)
      else if s = ''1234,5'' then Some (Finite (2469 / 2))
      else None)"

definition example_env_de :: env where
  "example_env_de = example_env\<lparr>locale_atof := example_atof_de\<rparr>"

definition example_args :: args where
  "example_args =
     \<lparr>institution_column = Some 0, period_column = Some 1, doi_column = Some 3,
      euro_column = Some 2, is_hybrid_column = Some 4, publisher_column = None,
      journal_full_title_column = None, issn_column = None, url_column = None,
      bypass_cert_verification = False\<rparr>"









section \<open>Properties of \<^verbatim>\<open>check_overwrite\<close>\<close>

lemma read_choice_valid:
  "read_choice inp = Inr (ret, rest) \<Longrightarrow> ret \<in> set valid_choices"
  by (induction inp) (auto split: if_splits)

lemma read_choice_error:
  "read_choice inp = Inl err \<Longrightarrow> err = EOFError"
  by (induction inp) (auto split: if_splits)

lemma read_choice_total:
  "\<exists>x \<in> set inp. x \<in> set valid_choices \<Longrightarrow> \<exists>ret rest. read_choice inp = Inr (ret, rest)"
  by (induction inp) auto

text \<open>
  Claim C6. For every column and every value \<open>v\<close>, the sentinel NA included, resolving
  \<open>v\<close> against \<open>v\<close> returns \<open>v\<close>. The equation holds whatever the column's policy and
  dictionaries are, the column comes back as it was, and no console line is read.
\<close>

theorem check_overwrite_equal_values:
  "check_overwrite self v v inp = Inr (v, self, inp)"
  by (simp add: check_overwrite_def)

theorem check_overwrite_equal_values_witness:
  "check_overwrite (publisher_col\<lparr>overwrite := OW_NEVER\<rparr>) ''NA'' ''NA'' [''3'']
     = Inr (''NA'', publisher_col\<lparr>overwrite := OW_NEVER\<rparr>, [''3''])"
  using check_overwrite_equal_values [of "publisher_col\<lparr>overwrite := OW_NEVER\<rparr>" "''NA''" "[''3'']"]
  by simp

text \<open>
  Claim C3, as stated: under the policy NEVER the old value is returned regardless of the
  values. It fails for an old value NA, which is replaced under every policy.
\<close>

theorem check_overwrite_never_counterexample:
  "check_overwrite (publisher_col\<lparr>overwrite := OW_NEVER\<rparr>) ''NA'' ''Elsevier BV'' []
     = Inr (''Elsevier BV'', publisher_col\<lparr>overwrite := OW_NEVER\<rparr>, [])
   \<and> ''Elsevier BV'' \<noteq> ''NA''"
  by (simp add: check_overwrite_def)

text \<open>
  Claim C3, amended. Under the policy ALWAYS the new value is returned for every pair of
  values. Under the policy NEVER the old value is returned for every pair of values,
  except that an old value which is NA or blank (empty or made of whitespace only, a
  no-break space included) is still replaced by the new one. In both cases the column is
  unchanged and nothing is asked.
\<close>

theorem check_overwrite_policy:
  "(overwrite self = OW_ALWAYS \<longrightarrow>
      check_overwrite self old_value new_value inp = Inr (new_value, self, inp))
   \<and> (overwrite self = OW_NEVER \<longrightarrow>
      check_overwrite self old_value new_value inp
        = Inr (if old_value = ''NA'' \<or> strip old_value = [] then new_value else old_value,
               self, inp))"
  by (simp add: check_overwrite_def)

theorem check_overwrite_policy_witness:
  "check_overwrite (publisher_col\<lparr>overwrite := OW_ALWAYS\<rparr>) ''Elsevier'' ''Elsevier BV'' [''4'']
     = Inr (''Elsevier BV'', publisher_col\<lparr>overwrite := OW_ALWAYS\<rparr>, [''4''])
   \<and> check_overwrite (publisher_col\<lparr>overwrite := OW_NEVER\<rparr>) ''Elsevier'' ''Elsevier BV'' [''1'']
     = Inr (''Elsevier'', publisher_col\<lparr>overwrite := OW_NEVER\<rparr>, [''1''])
   \<and> check_overwrite (publisher_col\<lparr>overwrite := OW_NEVER\<rparr>) [CHR 0xA0, CHR 0x20] ''Elsevier BV'' []
     = Inr (''Elsevier BV'', publisher_col\<lparr>overwrite := OW_NEVER\<rparr>, [])"
  using check_overwrite_policy [of "publisher_col\<lparr>overwrite := OW_ALWAYS\<rparr>"
          "''Elsevier''" "''Elsevier BV''" "[''4'']"]
        check_overwrite_policy [of "publisher_col\<lparr>overwrite := OW_NEVER\<rparr>"
          "''Elsevier''" "''Elsevier BV''" "[''1'']"]
        check_overwrite_policy [of "publisher_col\<lparr>overwrite := OW_NEVER\<rparr>"
          "[CHR 0xA0, CHR 0x20]" "''Elsevier BV''" "[]"]
  by (simp add: strip_def py_isspace_def)

text \<open>
  Claim C5. When the old value is a key of the whitelist and no earlier step of the
  resolution applies (the values differ, the old value is neither NA nor blank, the
  policy is ASK, the pair is not blacklisted), the current new value is returned
  whatever it is: the value \<open>stored\<close> with the key is not compared with it.
\<close>

theorem check_overwrite_whitelisted_key:
  assumes "old_value \<noteq> new_value" and "old_value \<noteq> ''NA''" and "strip old_value \<noteq> []"
    and "overwrite self = OW_ASK"
    and "overwrite_blacklist self old_value \<noteq> Some new_value"
    and "overwrite_whitelist self old_value = Some stored"
  shows "check_overwrite self old_value new_value inp = Inr (new_value, self, inp)"
  using assms by (simp add: check_overwrite_def)

theorem check_overwrite_whitelisted_key_witness:
  "check_overwrite (publisher_col\<lparr>overwrite_whitelist := [''Elsevier'' \<mapsto> ''Elsevier BV'']\<rparr>)
       ''Elsevier'' ''Elsevier Ltd'' [''4'']
     = Inr (''Elsevier Ltd'',
            publisher_col\<lparr>overwrite_whitelist := [''Elsevier'' \<mapsto> ''Elsevier BV'']\<rparr>, [''4''])"
  using check_overwrite_whitelisted_key
          [of "''Elsevier''" "''Elsevier Ltd''"
              "publisher_col\<lparr>overwrite_whitelist := [''Elsevier'' \<mapsto> ''Elsevier BV'']\<rparr>"
              "''Elsevier BV''" "[''4'']"]
  by (simp add: strip_def py_isspace_def publisher_col_def new_column_def CSVColumn_init_def)

text \<open>
  Claim C9. Whenever \<^verbatim>\<open>check_overwrite\<close> returns, the value is the old or the new one. The
  end of the function body, where Python would return no value, is never reached: the
  loop around \<^verbatim>\<open>raw_input\<close> only lets one of the six answers through. (The call does not
  return when the console ends before a valid answer: \<^verbatim>\<open>raw_input\<close> raises.)
\<close>

theorem check_overwrite_old_or_new:
  "check_overwrite self old_value new_value inp \<noteq> Inl NoneReturned
   \<and> (\<forall>v self' inp'. check_overwrite self old_value new_value inp = Inr (v, self', inp')
        \<longrightarrow> v = old_value \<or> v = new_value)"
  by (auto simp: check_overwrite_def valid_choices_def split: sum.splits if_splits
      dest: read_choice_valid read_choice_error)

theorem check_overwrite_old_or_new_witness:
  "check_overwrite publisher_col ''Elsevier'' ''Elsevier BV'' [''7'', ''yes'', ''5'', ''1'']
     = Inr (''Elsevier'',
            publisher_col\<lparr>overwrite_blacklist := [''Elsevier'' \<mapsto> ''Elsevier BV'']\<rparr>, [''1''])
   \<and> check_overwrite publisher_col ''Elsevier'' ''Elsevier BV'' [''7'', ''yes'', ''5'', ''1'']
       \<noteq> Inl NoneReturned"
  using check_overwrite_old_or_new
          [of publisher_col "''Elsevier''" "''Elsevier BV''" "[''7'', ''yes'', ''5'', ''1'']"]
  by (simp add: check_overwrite_def strip_def py_isspace_def publisher_col_def new_column_def
      CSVColumn_init_def valid_choices_def)

subsection \<open>Remembered decisions\<close>

lemma check_overwrite_state:
  assumes "check_overwrite c ov nv inp = Inr (v, c', inp')"
  shows "c' = c \<or> c' = c\<lparr>overwrite := OW_ALWAYS\<rparr> \<or> c' = c\<lparr>overwrite := OW_NEVER\<rparr>
         \<or> (prompt_reached c ov nv
              \<and> c' = c\<lparr>overwrite_whitelist := (overwrite_whitelist c)(ov \<mapsto> nv)\<rparr>)
         \<or> (prompt_reached c ov nv
              \<and> c' = c\<lparr>overwrite_blacklist := (overwrite_blacklist c)(ov \<mapsto> nv)\<rparr>)"
proof (cases "prompt_reached c ov nv")
  case False
  with assms have "c' = c"
    by (cases "overwrite c") (auto simp: check_overwrite_def prompt_reached_def split: if_splits)
  then show ?thesis by simp
next
  case True
  then have "check_overwrite c ov nv inp =
     (case read_choice inp of
        Inl e \<Rightarrow> Inl e
      | Inr (ret, rest) \<Rightarrow>
          if ret = ''1'' then Inr (nv, c, rest)
          else if ret = ''2'' then
            Inr (nv, c\<lparr>overwrite_whitelist := (overwrite_whitelist c)(ov \<mapsto> nv)\<rparr>, rest)
          else if ret = ''3'' then Inr (nv, c\<lparr>overwrite := OW_ALWAYS\<rparr>, rest)
          else if ret = ''4'' then Inr (ov, c, rest)
          else if ret = ''5'' then
            Inr (ov, c\<lparr>overwrite_blacklist := (overwrite_blacklist c)(ov \<mapsto> nv)\<rparr>, rest)
          else if ret = ''6'' then Inr (ov, c\<lparr>overwrite := OW_NEVER\<rparr>, rest)
          else Inl NoneReturned)"
    by (simp add: check_overwrite_def prompt_reached_def)
  with assms True show ?thesis
    by (auto split: sum.splits if_splits)
qed

lemma memo_ok_init: "memo_ok (CSVColumn_init ty rq ix nm ow)"
  by (simp add: memo_ok_def CSVColumn_init_def)

lemma memo_ok_step:
  assumes ok: "memo_ok c" and step: "check_overwrite c ov nv inp = Inr (v, c', inp')"
  shows "memo_ok c'"
proof -
  from check_overwrite_state [OF step] consider
      "c' = c" | "c' = c\<lparr>overwrite := OW_ALWAYS\<rparr>" | "c' = c\<lparr>overwrite := OW_NEVER\<rparr>"
    | "prompt_reached c ov nv"
      "c' = c\<lparr>overwrite_whitelist := (overwrite_whitelist c)(ov \<mapsto> nv)\<rparr>"
    | "prompt_reached c ov nv"
      "c' = c\<lparr>overwrite_blacklist := (overwrite_blacklist c)(ov \<mapsto> nv)\<rparr>"
    by blast
  then show ?thesis
  proof cases
    case 1
    with ok show ?thesis by simp
  next
    case 2
    with ok show ?thesis by (simp add: memo_ok_def)
  next
    case 3
    with ok show ?thesis by (simp add: memo_ok_def)
  next
    case 4
    with ok show ?thesis by (simp add: memo_ok_def prompt_reached_def)
  next
    case 5
    with ok show ?thesis by (simp add: memo_ok_def prompt_reached_def)
  qed
qed

lemma whitelist_step:
  assumes wl: "overwrite_whitelist c ov = Some nv"
    and step: "check_overwrite c ov' nv' inp = Inr (v, c', inp')"
  shows "overwrite_whitelist c' ov = Some nv"
  using check_overwrite_state [OF step] wl
  by (auto simp: prompt_reached_def)

lemma memo_ok_calls:
  "memo_ok c \<Longrightarrow> check_overwrite_calls c calls inp = Inr (c', inp') \<Longrightarrow> memo_ok c'"
proof (induction calls arbitrary: c inp)
  case Nil
  then show ?case by simp
next
  case (Cons call calls)
  obtain ov nv where call: "call = (ov, nv)" by (cases call)
  from Cons.prems(2) call obtain v c1 inp1 where
    step: "check_overwrite c ov nv inp = Inr (v, c1, inp1)"
    and rest: "check_overwrite_calls c1 calls inp1 = Inr (c', inp')"
    by (auto split: sum.splits)
  from memo_ok_step [OF Cons.prems(1) step] have "memo_ok c1" .
  from Cons.IH [OF this rest] show ?case .
qed

lemma whitelist_calls:
  "overwrite_whitelist c ov = Some nv \<Longrightarrow> check_overwrite_calls c calls inp = Inr (c', inp')
     \<Longrightarrow> overwrite_whitelist c' ov = Some nv"
proof (induction calls arbitrary: c inp)
  case Nil
  then show ?case by simp
next
  case (Cons call calls)
  obtain ov' nv' where call: "call = (ov', nv')" by (cases call)
  from Cons.prems(2) call obtain v c1 inp1 where
    step: "check_overwrite c ov' nv' inp = Inr (v, c1, inp1)"
    and rest: "check_overwrite_calls c1 calls inp1 = Inr (c', inp')"
    by (auto split: sum.splits)
  from whitelist_step [OF Cons.prems(1) step] have "overwrite_whitelist c1 ov = Some nv" .
  from Cons.IH [OF this rest] show ?case .
qed

lemma blacklist_step:
  assumes bl: "overwrite_blacklist c ov = Some nv"
    and step: "check_overwrite c ov' nv' inp = Inr (v, c', inp')"
    and other: "ov' = ov \<longrightarrow> nv' = nv"
  shows "overwrite_blacklist c' ov = Some nv"
  using check_overwrite_state [OF step] bl other
  by auto

lemma blacklist_calls:
  "overwrite_blacklist c ov = Some nv \<Longrightarrow> check_overwrite_calls c calls inp = Inr (c', inp')
     \<Longrightarrow> \<forall>(ov', nv') \<in> set calls. ov' = ov \<longrightarrow> nv' = nv
     \<Longrightarrow> overwrite_blacklist c' ov = Some nv"
proof (induction calls arbitrary: c inp)
  case Nil
  then show ?case by simp
next
  case (Cons call calls)
  obtain ov' nv' where call: "call = (ov', nv')" by (cases call)
  from Cons.prems(2) call obtain v c1 inp1 where
    step: "check_overwrite c ov' nv' inp = Inr (v, c1, inp1)"
    and rest: "check_overwrite_calls c1 calls inp1 = Inr (c', inp')"
    by (auto split: sum.splits)
  from Cons.prems(3) call have other: "ov' = ov \<longrightarrow> nv' = nv"
    and others: "\<forall>(ov', nv') \<in> set calls. ov' = ov \<longrightarrow> nv' = nv"
    by simp_all
  from blacklist_step [OF Cons.prems(1) step other] have "overwrite_blacklist c1 ov = Some nv" .
  from Cons.IH [OF this rest others] show ?case .
qed

lemma whitelisted_result:
  assumes "memo_ok c" and "overwrite_whitelist c ov = Some nv" and "overwrite c \<noteq> OW_NEVER"
  shows "check_overwrite c ov nv inp = Inr (nv, c, inp)"
  using assms by (auto simp: check_overwrite_def memo_ok_def)

lemma blacklisted_result:
  assumes "memo_ok c" and "overwrite_blacklist c ov = Some nv" and "overwrite c \<noteq> OW_ALWAYS"
  shows "check_overwrite c ov nv inp = Inr (ov, c, inp)"
  using assms by (auto simp: check_overwrite_def memo_ok_def)

lemma prompt_answer:
  assumes "prompt_reached c ov nv" and "read_choice inp = Inr (a, rest)"
  shows "a = ''2'' \<Longrightarrow> check_overwrite c ov nv inp =
           Inr (nv, c\<lparr>overwrite_whitelist := (overwrite_whitelist c)(ov \<mapsto> nv)\<rparr>, rest)"
    and "a = ''5'' \<Longrightarrow> check_overwrite c ov nv inp =
           Inr (ov, c\<lparr>overwrite_blacklist := (overwrite_blacklist c)(ov \<mapsto> nv)\<rparr>, rest)"
  using assms by (simp_all add: check_overwrite_def prompt_reached_def)

text \<open>
  Claim C4, as stated: once the pair is whitelisted (blacklisted), every later call with
  it returns the new (old) value without asking. It fails in three runs on a fresh
  publisher column. In the first the pair Elsevier \<rightarrow> Elsevier BV is whitelisted (answer
  2), a later conflict is answered with 6 (never overwrite in this column), and the
  whitelisted pair then gives the old value. In the second the pair is blacklisted
  (answer 5), a later conflict is answered with 3 (always overwrite in this column), and
  the blacklisted pair then gives the new value. In the third the pair is blacklisted,
  a later conflict for the same old value is answered with 5 too, which puts the new
  pair in the place of the first, and the first pair is asked about again (here
  answered with 1, so the new value is returned).
\<close>

theorem check_overwrite_remembered_counterexample:
  "check_overwrite_calls publisher_col
       [(''Elsevier'', ''Elsevier BV''), (''Wiley'', ''Wiley-Blackwell'')] [''2'', ''6'']
     = Inr (publisher_col\<lparr>overwrite := OW_NEVER,
              overwrite_whitelist := [''Elsevier'' \<mapsto> ''Elsevier BV'']\<rparr>, [])
   \<and> check_overwrite (publisher_col\<lparr>overwrite := OW_NEVER,
              overwrite_whitelist := [''Elsevier'' \<mapsto> ''Elsevier BV'']\<rparr>)
         ''Elsevier'' ''Elsevier BV'' []
     = Inr (''Elsevier'', publisher_col\<lparr>overwrite := OW_NEVER,
              overwrite_whitelist := [''Elsevier'' \<mapsto> ''Elsevier BV'']\<rparr>, [])
   \<and> ''Elsevier'' \<noteq> ''Elsevier BV''
   \<and> check_overwrite_calls publisher_col
       [(''Elsevier'', ''Elsevier BV''), (''Wiley'', ''Wiley-Blackwell'')] [''5'', ''3'']
     = Inr (publisher_col\<lparr>overwrite := OW_ALWAYS,
              overwrite_blacklist := [''Elsevier'' \<mapsto> ''Elsevier BV'']\<rparr>, [])
   \<and> check_overwrite (publisher_col\<lparr>overwrite := OW_ALWAYS,
              overwrite_blacklist := [''Elsevier'' \<mapsto> ''Elsevier BV'']\<rparr>)
         ''Elsevier'' ''Elsevier BV'' []
     = Inr (''Elsevier BV'', publisher_col\<lparr>overwrite := OW_ALWAYS,
              overwrite_blacklist := [''Elsevier'' \<mapsto> ''Elsevier BV'']\<rparr>, [])
   \<and> check_overwrite_calls publisher_col
       [(''Elsevier'', ''Elsevier BV''), (''Elsevier'', ''Elsevier Ltd'')] [''5'', ''5'']
     = Inr (publisher_col\<lparr>overwrite_blacklist := [''Elsevier'' \<mapsto> ''Elsevier Ltd'']\<rparr>, [])
   \<and> check_overwrite (publisher_col\<lparr>overwrite_blacklist := [''Elsevier'' \<mapsto> ''Elsevier Ltd'']\<rparr>)
         ''Elsevier'' ''Elsevier BV'' [''1'']
     = Inr (''Elsevier BV'',
            publisher_col\<lparr>overwrite_blacklist := [''Elsevier'' \<mapsto> ''Elsevier Ltd'']\<rparr>, [])"
  by (simp add: check_overwrite_def publisher_col_def new_column_def CSVColumn_init_def
      valid_choices_def strip_def py_isspace_def)

text \<open>
  Claim C4, amended. Take a column in any state \<open>c\<close> that calls of \<^verbatim>\<open>check_overwrite\<close>
  lead to from a new column, a call with the pair \<open>(ov, nv)\<close> that gets as far as asking,
  the answer \<open>a\<close> given to it, and any further calls, leading to the state \<open>c'\<close>.

  \<^item> If the answer was 2 (the pair was put on the whitelist), then in \<open>c'\<close> the call with
    that pair returns the new value, changes nothing and reads nothing from the console,
    unless the policy has become NEVER in between.
  \<^item> If the answer was 5 (the pair was put on the blacklist) and none of the further calls
    was about another replacement for the same old value, the blacklist still holds the
    pair in \<open>c'\<close>.
  \<^item> Whenever the blacklist holds the pair in \<open>c'\<close>, the call with that pair returns the
    old value, changes nothing and reads nothing, unless the policy has become ALWAYS.

  Nothing is said of a blacklisted pair after another replacement for its old value has
  been blacklisted: the dictionary then keeps the later pair only, which is not what
  answer 5 announces.
\<close>

theorem check_overwrite_remembered:
  assumes before: "check_overwrite_calls (CSVColumn_init ty rq ix nm ow) before inp0 = Inr (c, inp1)"
    and ask: "prompt_reached c ov nv"
    and answer: "read_choice inp1 = Inr (a, inp2)"
    and later: "check_overwrite_calls c ((ov, nv) # later) inp1 = Inr (c', inp3)"
  shows "(a = ''2'' \<and> overwrite c' \<noteq> OW_NEVER \<longrightarrow>
            check_overwrite c' ov nv inp = Inr (nv, c', inp))
       \<and> (a = ''5'' \<and> (\<forall>(ov', nv') \<in> set later. ov' = ov \<longrightarrow> nv' = nv) \<longrightarrow>
            overwrite_blacklist c' ov = Some nv)
       \<and> (overwrite_blacklist c' ov = Some nv \<and> overwrite c' \<noteq> OW_ALWAYS \<longrightarrow>
            check_overwrite c' ov nv inp = Inr (ov, c', inp))"
proof -
  have ok: "memo_ok c" using memo_ok_calls [OF memo_ok_init before] .
  have ok': "memo_ok c'" using memo_ok_calls [OF ok later] .
  have white: "check_overwrite c' ov nv inp = Inr (nv, c', inp)"
    if a: "a = ''2''" and pol: "overwrite c' \<noteq> OW_NEVER"
  proof -
    let ?c1 = "c\<lparr>overwrite_whitelist := (overwrite_whitelist c)(ov \<mapsto> nv)\<rparr>"
    from later prompt_answer(1) [OF ask answer a]
    have rest: "check_overwrite_calls ?c1 later inp2 = Inr (c', inp3)" by simp
    have "overwrite_whitelist ?c1 ov = Some nv" by simp
    from whitelist_calls [OF this rest] have "overwrite_whitelist c' ov = Some nv" .
    from whitelisted_result [OF ok' this pol] show ?thesis .
  qed
  have black: "overwrite_blacklist c' ov = Some nv"
    if a: "a = ''5''" and others: "\<forall>(ov', nv') \<in> set later. ov' = ov \<longrightarrow> nv' = nv"
  proof -
    let ?c1 = "c\<lparr>overwrite_blacklist := (overwrite_blacklist c)(ov \<mapsto> nv)\<rparr>"
    from later prompt_answer(2) [OF ask answer a]
    have rest: "check_overwrite_calls ?c1 later inp2 = Inr (c', inp3)" by simp
    have "overwrite_blacklist ?c1 ov = Some nv" by simp
    from blacklist_calls [OF this rest others] show ?thesis .
  qed
  from white black blacklisted_result [OF ok'] show ?thesis by blast
qed

theorem check_overwrite_remembered_witness:
  "check_overwrite (publisher_col\<lparr>overwrite_whitelist := [''Elsevier'' \<mapsto> ''Elsevier BV'']\<rparr>)
         ''Elsevier'' ''Elsevier BV'' []
     = Inr (''Elsevier BV'',
            publisher_col\<lparr>overwrite_whitelist := [''Elsevier'' \<mapsto> ''Elsevier BV'']\<rparr>, [])
   \<and> check_overwrite (publisher_col\<lparr>overwrite_blacklist := [''Elsevier'' \<mapsto> ''Elsevier BV'']\<rparr>)
         ''Elsevier'' ''Elsevier BV'' []
     = Inr (''Elsevier'',
            publisher_col\<lparr>overwrite_blacklist := [''Elsevier'' \<mapsto> ''Elsevier BV'']\<rparr>, [])"
proof -
  let ?new = "CSVColumn_init ''publisher'' OPTIONAL (Some 5) [] OW_ASK"
  let ?w = "publisher_col\<lparr>overwrite_whitelist := [''Elsevier'' \<mapsto> ''Elsevier BV'']\<rparr>"
  let ?b = "publisher_col\<lparr>overwrite_blacklist := [''Elsevier'' \<mapsto> ''Elsevier BV'']\<rparr>"
  have before: "check_overwrite_calls ?new [] [''x'', ''2'', ''4''] = Inr (?new, [''x'', ''2'', ''4''])"
      "check_overwrite_calls ?new [] [''5'', ''1''] = Inr (?new, [''5'', ''1''])"
    by simp_all
  have ask: "prompt_reached ?new ''Elsevier'' ''Elsevier BV''"
    by (simp add: prompt_reached_def CSVColumn_init_def strip_def py_isspace_def)
  have answer: "read_choice [''x'', ''2'', ''4''] = Inr (''2'', [''4''])"
      "read_choice [''5'', ''1''] = Inr (''5'', [''1''])"
    by (simp_all add: valid_choices_def)
  have w: "check_overwrite_calls ?new
             [(''Elsevier'', ''Elsevier BV''), (''Wiley'', ''Wiley-Blackwell'')] [''x'', ''2'', ''4'']
           = Inr (?w, [])"
    by (simp add: check_overwrite_def publisher_col_def new_column_def CSVColumn_init_def
        valid_choices_def strip_def py_isspace_def)
  have b: "check_overwrite_calls ?new
             [(''Elsevier'', ''Elsevier BV''), (''Wiley'', ''Wiley-Blackwell'')] [''5'', ''1'']
           = Inr (?b, [])"
    by (simp add: check_overwrite_def publisher_col_def new_column_def CSVColumn_init_def
        valid_choices_def strip_def py_isspace_def)
  have pol: "overwrite ?w \<noteq> OW_NEVER" "overwrite ?b \<noteq> OW_ALWAYS"
    by (simp_all add: publisher_col_def new_column_def CSVColumn_init_def)
  have others: "\<forall>(ov', nv') \<in> set [(''Wiley'', ''Wiley-Blackwell'')].
                  ov' = ''Elsevier'' \<longrightarrow> nv' = ''Elsevier BV''"
    by simp
  from check_overwrite_remembered [OF before(1) ask answer(1) w, of "[]"] pol(1)
  have r1: "check_overwrite ?w ''Elsevier'' ''Elsevier BV'' [] = Inr (''Elsevier BV'', ?w, [])"
    by blast
  from check_overwrite_remembered [OF before(2) ask answer(2) b, of "[]"] others pol(2)
  have r2: "check_overwrite ?b ''Elsevier'' ''Elsevier BV'' [] = Inr (''Elsevier'', ?b, [])"
    by blast
  from r1 r2 show ?thesis by blast
qed

section \<open>Properties of the metadata aggregation\<close>

subsection \<open>The DOAJ lookup\<close>




lemma str_nat_small: "str_nat 2 = ''2''" "str_nat 3 = ''3''" "str_nat 5 = ''5''"
  by (simp_all add: str_nat.simps digit_char_def)


subsection \<open>Rows of the wrong length\<close>

text \<open>
  Claim C7. A data row (a non-empty row that is not the header row) whose number of cells
  differs from \<^verbatim>\<open>num_columns\<close> is appended unchanged to the output (after the header of the
  output, when the row is the first one of a file without header); exactly one message is
  appended to \<^verbatim>\<open>error_messages\<close>, and it names the row number; the column map and the
  console are left as they were and the result does not depend on any metadata source;
  the loop goes on with the next row from that state.
\<close>

theorem process_row_wrong_length:
  assumes "row \<noteq> []" and "length row \<noteq> num_columns"
    and "header_processed st \<or> \<not> has_header"
  shows "process_row e a has_header num_columns st row =
           Inr (st\<lparr>row_num := row_num st + 1, header_processed := True,
                   enriched_content := enriched_content st
                      @ (if header_processed st then [] else [od_keys (column_map st)]) @ [row],
                   error_messages := error_messages st
                      @ [line_msg (row_num st + 1)
                           (syntax_error_msg (row_num st + 1) (length row) num_columns)]\<rparr>)
         \<and> process_rows e a has_header num_columns st (row # rows) =
             process_rows e a has_header num_columns
               (st\<lparr>row_num := row_num st + 1, header_processed := True,
                   enriched_content := enriched_content st
                      @ (if header_processed st then [] else [od_keys (column_map st)]) @ [row],
                   error_messages := error_messages st
                      @ [line_msg (row_num st + 1)
                           (syntax_error_msg (row_num st + 1) (length row) num_columns)]\<rparr>) rows"
proof -
  have one: "process_row e a has_header num_columns st row =
           Inr (st\<lparr>row_num := row_num st + 1, header_processed := True,
                   enriched_content := enriched_content st
                      @ (if header_processed st then [] else [od_keys (column_map st)]) @ [row],
                   error_messages := error_messages st
                      @ [line_msg (row_num st + 1)
                           (syntax_error_msg (row_num st + 1) (length row) num_columns)]\<rparr>)"
    using assms by (cases "header_processed st") (auto simp: process_row_def Let_def)
  then show ?thesis by (simp add: bindE_def)
qed

theorem process_row_wrong_length_witness:
  "process_row example_env example_args True 5
       ((main_state_init (column_map_init example_args) [])\<lparr>header_processed := True, row_num := 1\<rparr>)
       [''Harvard'', ''2021'', ''1500'']
     = Inr ((main_state_init (column_map_init example_args) [])
              \<lparr>header_processed := True, row_num := 2,
               enriched_content := [[''Harvard'', ''2021'', ''1500'']],
               error_messages := [''Line 2: Syntax: the number of values in line 2 (3) differs from the number of columns (5). Line left unchanged, please correct the error in the result file and re-run.'']\<rparr>)"
proof -
  let ?st = "(main_state_init (column_map_init example_args) [])\<lparr>header_processed := True, row_num := 1\<rparr>"
  have h1: "[''Harvard'', ''2021'', ''1500''] \<noteq> []" by simp
  have h2: "length [''Harvard'', ''2021'', ''1500''] \<noteq> 5" by simp
  have h3: "header_processed ?st \<or> \<not> True" by simp
  have n: "row_num ?st + 1 = 2" by simp
  have l: "length [''Harvard'', ''2021'', ''1500''] = 3" by simp
  have m: "line_msg 2 (syntax_error_msg 2 3 5) = ''Line 2: Syntax: the number of values in line 2 (3) differs from the number of columns (5). Line left unchanged, please correct the error in the result file and re-run.''"
    by (simp add: line_msg_def syntax_error_msg_def str_nat_small)
  from process_row_wrong_length [OF h1 h2 h3, of example_env example_args "[]"]
  have "process_row example_env example_args True 5 ?st [''Harvard'', ''2021'', ''1500''] =
           Inr (?st\<lparr>row_num := row_num ?st + 1, header_processed := True,
                   enriched_content := enriched_content ?st
                      @ (if header_processed ?st then [] else [od_keys (column_map ?st)])
                      @ [[''Harvard'', ''2021'', ''1500'']],
                   error_messages := error_messages ?st
                      @ [line_msg (row_num ?st + 1)
                           (syntax_error_msg (row_num ?st + 1) (length [''Harvard'', ''2021'', ''1500'']) 5)]\<rparr>)"
    by (rule conjunct1)
  then show ?thesis
    unfolding n l m by (simp add: main_state_init_def)
qed

subsection \<open>The monetary value\<close>

lemma digit_char_digit: "d < 10 \<Longrightarrow> digit_char d \<in> decimal_digits"
  unfolding digit_char_def decimal_digits_def by (rule nth_mem) simp

lemma str_nat_digits: "set (str_nat n) \<subseteq> decimal_digits"
proof (induction n rule: str_nat.induct)
  case (1 n)
  show ?case
  proof (cases "n < 10")
    case True
    have "str_nat n = [digit_char n]"
      using True by (subst str_nat.simps) simp
    with digit_char_digit [OF True] show ?thesis by simp
  next
    case False
    have eq: "str_nat n = str_nat (n div 10) @ [digit_char (n mod 10)]"
      using False by (subst str_nat.simps) simp
    have "n mod 10 < 10" by simp
    from digit_char_digit [OF this] 1 [OF False] show ?thesis
      unfolding eq by simp
  qed
qed

lemma str_int_chars: "set (str_int i) \<subseteq> insert CHR ''-'' decimal_digits"
proof (cases "i < 0")
  case True
  then show ?thesis
    using str_nat_digits [of "nat (- i)"] by (simp add: str_int_def subset_insertI2)
next
  case False
  then show ?thesis
    using str_nat_digits [of "nat i"] by (simp add: str_int_def subset_insertI2)
qed

lemma euro_cell_eq:
  "euro_cell e cell =
     (case locale_atof e cell of
        None \<Rightarrow> Inl SystemExit
      | Some x \<Rightarrow>
          (case x of
             Finite q \<Rightarrow> Inr (if of_int \<lfloor>q\<rfloor> = q then str_int \<lfloor>q\<rfloor> else float_str e x)
           | _ \<Rightarrow> Inr (float_str e x)))"
proof (cases "locale_atof e cell")
  case None
  then show ?thesis by (simp add: euro_cell_def)
next
  case (Some x)
  show ?thesis
  proof (cases x)
    case (Finite q)
    have "of_int \<lfloor>q\<rfloor> = q \<Longrightarrow> \<lceil>q\<rceil> = \<lfloor>q\<rfloor>"
      by (metis ceiling_of_int)
    with Some Finite show ?thesis by (simp add: euro_cell_def)
  qed (simp_all add: Some euro_cell_def)
qed

lemma is_digit_no_comma: "is_digit ch \<Longrightarrow> ch \<noteq> CHR '',''"
  by (auto simp: is_digit_def decimal_digits_def)

lemma digits_no_comma: "list_all is_digit ds \<Longrightarrow> CHR '','' \<notin> set ds"
  by (induction ds) (auto dest: is_digit_no_comma)

lemma takeWhile_digits_no_comma: "CHR '','' \<notin> set (takeWhile is_digit s)"
  by (induction s) (auto dest: is_digit_no_comma)

lemma exponent_shaped_no_comma: "exponent_shaped s \<Longrightarrow> CHR '','' \<notin> set s"
  by (auto simp: exponent_shaped_def split: list.splits dest: digits_no_comma)

lemma unsigned_float_shaped_no_comma:
  assumes "unsigned_float_shaped s"
  shows "CHR '','' \<notin> set s"
proof -
  have s: "s = takeWhile is_digit s @ dropWhile is_digit s" by simp
  have "CHR '','' \<notin> set (dropWhile is_digit s)"
  proof (cases "dropWhile is_digit s")
    case Nil
    show ?thesis unfolding Nil by simp
  next
    case (Cons ch r)
    show ?thesis
    proof (cases "ch = CHR ''.''")
      case True
      with assms Cons have "dropWhile is_digit r = [] \<or> exponent_shaped (dropWhile is_digit r)"
        by (simp add: unsigned_float_shaped_def)
      then have "CHR '','' \<notin> set (dropWhile is_digit r)"
      proof
        assume e: "dropWhile is_digit r = []"
        show ?thesis unfolding e by simp
      next
        assume "exponent_shaped (dropWhile is_digit r)"
        then show ?thesis by (rule exponent_shaped_no_comma)
      qed
      moreover have "r = takeWhile is_digit r @ dropWhile is_digit r" by simp
      ultimately have "CHR '','' \<notin> set r"
        using takeWhile_digits_no_comma [of r] by (metis Un_iff set_append)
      with True Cons show ?thesis by simp
    next
      case False
      with assms Cons have "exponent_shaped (ch # r)"
        by (simp add: unsigned_float_shaped_def)
      from exponent_shaped_no_comma [OF this] Cons show ?thesis by simp
    qed
  qed
  with takeWhile_digits_no_comma [of s] show ?thesis
    by (metis Un_iff s set_append)
qed

lemma float_shaped_no_comma:
  assumes "float_shaped s"
  shows "CHR '','' \<notin> set s"
proof -
  from assms consider "s = ''inf''" | "s = ''-inf''" | "s = ''nan''"
    | r where "s = CHR ''-'' # r" "unsigned_float_shaped r"
    | "unsigned_float_shaped s"
    by (auto simp: float_shaped_def split: list.splits if_splits)
  then show ?thesis
  proof cases
    case 4
    then show ?thesis by (auto dest: unsigned_float_shaped_no_comma)
  next
    case 5
    then show ?thesis by (rule unsigned_float_shaped_no_comma)
  qed simp_all
qed

lemma str_int_no_comma: "CHR '','' \<notin> set (str_int n)"
  using str_int_chars [of n] by (auto simp: decimal_digits_def)

text \<open>
  Claim C10. When the initial row is built, a non-empty cell of the euro column is not
  copied: it is parsed by \<^verbatim>\<open>locale.atof\<close> (the run exits when that fails) and the field is
  \<^verbatim>\<open>str\<close> of the number, converted to an integer first when its value is integral. In that
  case the field is the decimal numeral of the integer, which has no decimal mark and no
  fractional part: the cell 1500.00 gives the field 1500. Otherwise the field is what
  \<^verbatim>\<open>str\<close> gives for the float; as that text always has the shape \<open>float_shaped\<close>, whatever
  the locale, the field holds no comma, and its decimal mark is a dot: under a German
  locale the cell 1234,5 gives the field 1234.5.
\<close>

theorem copy_cell_euro:
  assumes "column_type c = ''euro''" and "index c = Some i" and "py_getitem row i = Inr cell"
    and "cell \<noteq> []"
  shows "copy_cell e row c =
           (case locale_atof e cell of
              None \<Rightarrow> Inl SystemExit
            | Some x \<Rightarrow>
                (case x of
                   Finite q \<Rightarrow>
                     Inr (if of_int \<lfloor>q\<rfloor> = q then str_int \<lfloor>q\<rfloor> else float_str e x)
                 | _ \<Rightarrow> Inr (float_str e x)))
         \<and> (\<forall>n. locale_atof e cell = Some (Finite (of_int n)) \<longrightarrow>
               copy_cell e row c = Inr (str_int n)
                 \<and> set (str_int n) \<subseteq> insert CHR ''-'' decimal_digits)
         \<and> (float_str_ok e \<longrightarrow>
               (\<forall>field. copy_cell e row c = Inr field \<longrightarrow>
                  ((\<exists>n. field = str_int n) \<or> float_shaped field) \<and> CHR '','' \<notin> set field))"
proof -
  have eq: "copy_cell e row c = euro_cell e cell"
    using assms by (simp add: copy_cell_def bindE_def)
  have shaped: "(\<exists>n. field = str_int n) \<or> float_shaped field"
    if ok: "float_str_ok e" and r: "euro_cell e cell = Inr field" for field
  proof -
    from r obtain x where x: "locale_atof e cell = Some x"
      by (auto simp: euro_cell_eq split: option.splits)
    from ok have fs: "float_shaped (float_str e x)"
      by (simp add: float_str_ok_def)
    from r x have "field = float_str e x \<or> (\<exists>n. field = str_int n)"
      by (cases x) (auto simp: euro_cell_eq split: if_splits)
    with fs show ?thesis by blast
  qed
  have comma: "CHR '','' \<notin> set field"
    if "float_str_ok e" and "euro_cell e cell = Inr field" for field
    using shaped [OF that] str_int_no_comma float_shaped_no_comma by blast
  have first: "euro_cell e cell =
           (case locale_atof e cell of
              None \<Rightarrow> Inl SystemExit
            | Some x \<Rightarrow>
                (case x of
                   Finite q \<Rightarrow>
                     Inr (if of_int \<lfloor>q\<rfloor> = q then str_int \<lfloor>q\<rfloor> else float_str e x)
                 | _ \<Rightarrow> Inr (float_str e x)))
         \<and> (\<forall>n. locale_atof e cell = Some (Finite (of_int n)) \<longrightarrow>
               euro_cell e cell = Inr (str_int n)
                 \<and> set (str_int n) \<subseteq> insert CHR ''-'' decimal_digits)"
    using str_int_chars by (simp add: euro_cell_eq)
  from first shaped comma show ?thesis
    unfolding eq by blast
qed

lemma str_int_1500: "str_int 1500 = ''1500''"
  by (simp add: str_int_def str_nat.simps digit_char_def)

lemma example_float_str_ok: "float_str_ok example_env_de"
  by (simp add: float_str_ok_def example_env_de_def example_env_def float_shaped_def
      unsigned_float_shaped_def exponent_shaped_def is_digit_def decimal_digits_def)

theorem copy_cell_euro_witness:
  "copy_cell example_env [''Harvard'', ''2021'', ''1500.00'', ''10.1/abc'', ''TRUE'']
       (new_column ''euro'' MANDATORY (Some 2)) = Inr ''1500''
   \<and> copy_cell example_env_de [''Harvard'', ''2021'', ''1234,5'', ''10.1/abc'', ''TRUE'']
       (new_column ''euro'' MANDATORY (Some 2)) = Inr ''1234.5''
   \<and> float_str_ok example_env_de
   \<and> float_shaped ''1234.5'' \<and> CHR '','' \<notin> set ''1234.5''"
proof -
  let ?c = "new_column ''euro'' MANDATORY (Some 2)"
  let ?row1 = "[''Harvard'', ''2021'', ''1500.00'', ''10.1/abc'', ''TRUE'']"
  let ?row2 = "[''Harvard'', ''2021'', ''1234,5'', ''10.1/abc'', ''TRUE'']"
  have c1: "column_type ?c = ''euro''" and c2: "index ?c = Some 2"
    by (simp_all add: new_column_def CSVColumn_init_def)
  have g1: "py_getitem ?row1 2 = Inr ''1500.00''"
    by (simp add: py_getitem_def)
  have g2: "py_getitem ?row2 2 = Inr ''1234,5''"
    by (simp add: py_getitem_def)
  have a1: "locale_atof example_env ''1500.00'' = Some (Finite (of_int 1500))"
    by (simp add: example_env_def example_atof_def)
  have a2: "locale_atof example_env_de ''1234,5'' = Some (Finite (2469 / 2))"
    by (simp add: example_env_de_def example_atof_de_def)
  have f2: "float_str example_env_de (Finite (2469 / 2)) = ''1234.5''"
    by (simp add: example_env_de_def example_env_def)
  have n2: "of_int \<lfloor>2469 / 2 :: rat\<rfloor> \<noteq> (2469 / 2 :: rat)"
  proof
    assume "of_int \<lfloor>2469 / 2 :: rat\<rfloor> = (2469 / 2 :: rat)"
    then have "(of_int (2 * \<lfloor>2469 / 2 :: rat\<rfloor>) :: rat) = of_int 2469"
      by simp
    then have "2 * \<lfloor>2469 / 2 :: rat\<rfloor> = 2469"
      by (simp only: of_int_eq_iff)
    then show False by presburger
  qed
  note t1 = copy_cell_euro [OF c1 c2 g1, of example_env]
  note t2 = copy_cell_euro [OF c1 c2 g2, of example_env_de]
  from t1 a1 have r1: "copy_cell example_env ?row1 ?c = Inr (str_int 1500)"
    by blast
  from t2 have "copy_cell example_env_de ?row2 ?c =
           (case locale_atof example_env_de ''1234,5'' of
              None \<Rightarrow> Inl SystemExit
            | Some x \<Rightarrow>
                (case x of
                   Finite q \<Rightarrow>
                     Inr (if of_int \<lfloor>q\<rfloor> = q then str_int \<lfloor>q\<rfloor> else float_str example_env_de x)
                 | _ \<Rightarrow> Inr (float_str example_env_de x)))"
    by (rule conjunct1) simp
  then have r2: "copy_cell example_env_de ?row2 ?c = Inr ''1234.5''"
    using n2 by (simp add: a2 f2)
  from t2 example_float_str_ok r2
  have r3: "((\<exists>n. ''1234.5'' = str_int n) \<or> float_shaped ''1234.5'') \<and> CHR '','' \<notin> set ''1234.5''"
    by blast
  have r4: "float_shaped ''1234.5''"
    by (simp add: float_shaped_def unsigned_float_shaped_def exponent_shaped_def is_digit_def
        decimal_digits_def)
  from r1 r2 r3 r4 example_float_str_ok show ?thesis by (simp add: str_int_1500)
qed

subsection \<open>A row for which no metadata is found\<close>

lemma new_column_sel [simp]:
  "column_type (new_column ty rq ix) = ty" "index (new_column ty rq ix) = ix"
  by (simp_all add: new_column_def CSVColumn_init_def)




lemma bindE_Inr [simp]: "bindE (Inr x) f = f x"
  by (simp add: bindE_def)












section \<open>Properties of the heuristical analysis\<close>


















end
